theory Spec2Isabelle
  imports Main "HOL-Library.List_Lexorder" "HOL-Library.Char_ord"
begin

section \<open>Python strings\<close>

text \<open>
  A Python \<open>str\<close> is a sequence of code points. It is modelled as a \<open>string\<close> whose
  characters are the code points 0 to 255 (Latin-1), which covers every string literal
  of the modelled code: the accented words of \<open>assistent.py\<close> are stored in the source
  file as two Latin-1 code points each (\<open>0xC3\<close> followed by a second one), and are
  written here as the source file has them. User-interface texts (which hold symbols
  beyond Latin-1) are not strings of the model but constructors of a datatype.
\<close>

text \<open>\<open>str.isspace\<close> on the code points below 256, as \<open>str.split()\<close> uses it.\<close>

definition isspace :: "char \<Rightarrow> bool" where
  "isspace c = (c \<in> set [CHR 0x09, CHR 0x0A, CHR 0x0B, CHR 0x0C, CHR 0x0D, CHR 0x1C, CHR 0x1D,
                          CHR 0x1E, CHR 0x1F, CHR 0x20, CHR 0x85, CHR 0xA0])"

definition upper_chars :: string where
  "upper_chars = ''ABCDEFGHIJKLMNOPQRSTUVWXYZ'' @
     [CHR 0xC0, CHR 0xC1, CHR 0xC2, CHR 0xC3, CHR 0xC4, CHR 0xC5, CHR 0xC6, CHR 0xC7,
      CHR 0xC8, CHR 0xC9, CHR 0xCA, CHR 0xCB, CHR 0xCC, CHR 0xCD, CHR 0xCE, CHR 0xCF,
      CHR 0xD0, CHR 0xD1, CHR 0xD2, CHR 0xD3, CHR 0xD4, CHR 0xD5, CHR 0xD6,
      CHR 0xD8, CHR 0xD9, CHR 0xDA, CHR 0xDB, CHR 0xDC, CHR 0xDD, CHR 0xDE]"

definition lower_chars :: string where
  "lower_chars = ''abcdefghijklmnopqrstuvwxyz'' @
     [CHR 0xE0, CHR 0xE1, CHR 0xE2, CHR 0xE3, CHR 0xE4, CHR 0xE5, CHR 0xE6, CHR 0xE7,
      CHR 0xE8, CHR 0xE9, CHR 0xEA, CHR 0xEB, CHR 0xEC, CHR 0xED, CHR 0xEE, CHR 0xEF,
      CHR 0xF0, CHR 0xF1, CHR 0xF2, CHR 0xF3, CHR 0xF4, CHR 0xF5, CHR 0xF6,
      CHR 0xF8, CHR 0xF9, CHR 0xFA, CHR 0xFB, CHR 0xFC, CHR 0xFD, CHR 0xFE]"

text \<open>\<open>str.lower()\<close>: below 256 the cased letters are A to Z and \<open>0xC0\<close> to \<open>0xDE\<close>
  without the multiplication sign \<open>0xD7\<close>; each maps to one code point below 256.\<close>

definition lower_char :: "char \<Rightarrow> char" where
  "lower_char c = (case map_of (zip upper_chars lower_chars) c of Some l \<Rightarrow> l | None \<Rightarrow> c)"

definition lower :: "string \<Rightarrow> string" where
  "lower s = map lower_char s"

text \<open>\<open>str.split()\<close> with no argument: the maximal runs of non-whitespace, in order.
  \<open>cur\<close> is the run being read.\<close>

fun split_ws :: "string \<Rightarrow> string \<Rightarrow> string list" where
  "split_ws cur [] = (if cur = [] then [] else [cur])"
| "split_ws cur (c # cs) =
     (if isspace c then (if cur = [] then split_ws [] cs else cur # split_ws [] cs)
      else split_ws (cur @ [c]) cs)"

definition split :: "string \<Rightarrow> string list" where
  "split s = split_ws [] s"

text \<open>\<open>str.split(sep)\<close> with a one-character separator: empty pieces are kept.\<close>

fun split_sep :: "char \<Rightarrow> string \<Rightarrow> string \<Rightarrow> string list" where
  "split_sep sep cur [] = [cur]"
| "split_sep sep cur (c # cs) =
     (if c = sep then cur # split_sep sep [] cs else split_sep sep (cur @ [c]) cs)"

definition split_on :: "char \<Rightarrow> string \<Rightarrow> string list" where
  "split_on sep s = split_sep sep [] s"

definition startswith :: "string \<Rightarrow> string \<Rightarrow> bool" where
  "startswith s p = (take (length p) s = p)"

section \<open>The language heuristic (\<open>is_english\<close>, assistent.py)\<close>

definition a_acute :: string where "a_acute = [CHR 0xC3, CHR 0xA1]"
definition e_acute :: string where "e_acute = [CHR 0xC3, CHR 0xA9]"
definition i_acute :: string where "i_acute = [CHR 0xC3, CHR 0xAD]"
definition o_acute :: string where "o_acute = [CHR 0xC3, CHR 0xB3]"

definition english_words :: "string list" where
  "english_words = [''the'', ''and'', ''is'', ''are'', ''was'', ''were'', ''have'', ''has'', ''had'',
     ''this'', ''that'', ''these'', ''those'', ''what'', ''when'', ''where'', ''why'', ''how'',
     ''who'', ''which'']"

definition spanish_words :: "string list" where
  "spanish_words = [''el'', ''la'', ''los'', ''las'', ''es'', ''son'', ''est'' @ a_acute,
     ''est'' @ a_acute @ ''n'', ''tiene'', ''tienen'', ''este'', ''esta'', ''estos'', ''estas'',
     ''qu'' @ e_acute, ''cu'' @ a_acute @ ''ndo'', ''d'' @ o_acute @ ''nde'',
     ''por qu'' @ e_acute, ''c'' @ o_acute @ ''mo'', ''qui'' @ e_acute @ ''n'']"

definition is_english :: "string \<Rightarrow> bool" where
  "is_english text =
     (let words = split (lower text);
          english_count = (\<Sum>word \<leftarrow> filter (\<lambda>word. word \<in> set english_words) words. (1::int));
          spanish_count = (\<Sum>word \<leftarrow> filter (\<lambda>word. word \<in> set spanish_words) words. (1::int))
      in english_count > spanish_count)"


section \<open>Integers in strings\<close>

text \<open>
  \<open>int(s)\<close> for a string: surrounding whitespace is dropped (the ASCII whitespace
  \<open>0x09\<close> to \<open>0x0D\<close> and \<open>0x20\<close>, and the two Latin-1 spaces \<open>0x85\<close> and \<open>0xA0\<close>;
  the separators \<open>0x1C\<close> to \<open>0x1F\<close> are not), then an optional sign, then decimal
  digits, where single underscores may stand between digits. \<open>None\<close> is \<open>ValueError\<close>.
  The cap that recent CPython versions put on the number of digits is not modelled.
\<close>

definition int_space :: "char \<Rightarrow> bool" where
  "int_space c = (c \<in> set [CHR 0x09, CHR 0x0A, CHR 0x0B, CHR 0x0C, CHR 0x0D, CHR 0x20,
                            CHR 0x85, CHR 0xA0])"

definition strip_int :: "string \<Rightarrow> string" where
  "strip_int s = rev (dropWhile int_space (rev (dropWhile int_space s)))"

definition digit_val :: "char \<Rightarrow> nat option" where
  "digit_val c = map_of (zip ''0123456789'' [0, 1, 2, 3, 4, 5, 6, 7, 8, 9]) c"

fun parse_digits :: "nat \<Rightarrow> string \<Rightarrow> nat option" where
  "parse_digits acc [] = Some acc"
| "parse_digits acc (c # cs) =
     (if c = CHR ''_''
      then (case cs of
              [] \<Rightarrow> None
            | d # ds \<Rightarrow> (case digit_val d of
                          None \<Rightarrow> None
                        | Some v \<Rightarrow> parse_digits (10 * acc + v) ds))
      else (case digit_val c of
              None \<Rightarrow> None
            | Some v \<Rightarrow> parse_digits (10 * acc + v) cs))"

definition parse_nat :: "string \<Rightarrow> nat option" where
  "parse_nat s =
     (case s of
        [] \<Rightarrow> None
      | c # cs \<Rightarrow> (case digit_val c of None \<Rightarrow> None | Some v \<Rightarrow> parse_digits v cs))"

definition py_int :: "string \<Rightarrow> int option" where
  "py_int s =
     (case strip_int s of
        [] \<Rightarrow> None
      | c # cs \<Rightarrow>
          if c = CHR ''+'' then map_option int (parse_nat cs)
          else if c = CHR ''-'' then map_option (\<lambda>n. - int n) (parse_nat cs)
          else map_option int (parse_nat (c # cs)))"

definition digit_char :: "nat \<Rightarrow> char" where
  "digit_char d = ''0123456789'' ! d"

text \<open>The decimal text of an integer, as an f-string prints it.\<close>

function str_nat :: "nat \<Rightarrow> string" where
  "str_nat n = (if n < 10 then [digit_char n] else str_nat (n div 10) @ [digit_char (n mod 10)])"
  by pat_completeness auto
termination
  by (relation "measure id") auto

declare str_nat.simps [simp del]

definition str_int :: "int \<Rightarrow> string" where
  "str_int i = (if i < 0 then CHR ''-'' # str_nat (nat (- i)) else str_nat (nat i))"

section \<open>The Store: JSON files\<close>

datatype exn = FileNotFoundError | JSONDecodeError | KeyError | TypeError | IndexError
  | UnboundLocalError | OSError | RequestException

text \<open>
  A file either does not exist, or holds text that is not JSON, or holds a JSON
  document. The documents of the model are typed: a notes file that parses holds a list
  of note records.
\<close>

datatype 'a json_file = Missing | Malformed | Content 'a

text \<open>
  What the operating system does with one \<open>open(path, 'r')\<close> and the reading that
  follows: the text of the file comes through, or the read fails (no permission to
  read, an input/output error), whatever the file holds. It is an input of every
  operation that loads, as \<open>wres\<close> below is of every operation that saves: whether a
  file can be read is independent of whether it can be written and of what was
  written to it before.
\<close>

datatype rres = Read_ok | Read_fails

text \<open>\<open>open(path, 'r')\<close> followed by \<open>json.load\<close>.\<close>

definition read_json :: "rres \<Rightarrow> 'a json_file \<Rightarrow> exn + 'a" where
  "read_json rd f =
     (case rd of
        Read_fails \<Rightarrow> Inl OSError
      | Read_ok \<Rightarrow>
          (case f of
             Missing \<Rightarrow> Inl FileNotFoundError
           | Malformed \<Rightarrow> Inl JSONDecodeError
           | Content d \<Rightarrow> Inr d))"

text \<open>\<open>NoteManager._load_json\<close> (both files): any exception is caught and \<open>[]\<close> returned.\<close>

definition load_json :: "rres \<Rightarrow> 'a list json_file \<Rightarrow> 'a list" where
  "load_json rd f = (case read_json rd f of Inl e \<Rightarrow> [] | Inr d \<Rightarrow> d)"

text \<open>
  What the operating system does with one \<open>open(path, 'w')\<close> and \<open>json.dump\<close>: the
  document is written; or the open is refused and the file stays as it was; or the file
  is truncated and the dump fails before it is complete. It is an input of every
  operation that saves. A document that was written is in the file; whether a later
  read gets it is that read's \<open>rres\<close>.
\<close>

datatype wres = Written | Refused | Torn

text \<open>\<open>open(path, 'w')\<close> followed by \<open>json.dump\<close>: the exception, if any, and the file.\<close>

definition write_json :: "wres \<Rightarrow> 'a \<Rightarrow> 'a json_file \<Rightarrow> exn option \<times> 'a json_file" where
  "write_json wr data f =
     (case wr of
        Written \<Rightarrow> (None, Content data)
      | Refused \<Rightarrow> (Some OSError, f)
      | Torn \<Rightarrow> (Some OSError, Malformed))"

text \<open>\<open>NoteManager._save_json\<close> of assistent.py: \<open>True\<close> on success, \<open>False\<close> when an
  exception was caught. (The one of note\_manager.py returns nothing; no caller reads
  the result of either.)\<close>

definition save_json :: "wres \<Rightarrow> 'a \<Rightarrow> 'a json_file \<Rightarrow> bool \<times> 'a json_file" where
  "save_json wr data f =
     (case write_json wr data f of
        (None, f') \<Rightarrow> (True, f')
      | (Some e, f') \<Rightarrow> (False, f'))"

section \<open>The records\<close>

text \<open>
  A note of notes.json. The key \<open>project_id\<close> is \<open>None\<close> both when the document holds
  \<open>null\<close> and when it has no such key (an idea): the code reads it with \<open>.get\<close> only.
  \<open>n_type\<close> is the key \<open>type\<close> (\<open>idea\<close> on an idea), \<open>n_updated\<close> the key \<open>updated\<close>.
\<close>

record Note =
  n_id :: string
  n_content :: string
  n_created :: string
  n_project_id :: "string option"
  n_type :: "string option"
  n_updated :: "string option"

record Project =
  p_id :: string
  p_title :: string
  p_created :: string

record RefinedNote =
  r_id :: string
  r_original_content :: string
  r_refined_content :: string
  r_created :: string
  r_project_id :: "string option"

record store =
  notes_file :: "Note list json_file"
  projects_file :: "Project list json_file"
  refined_file :: "RefinedNote list json_file"

section \<open>\<open>NoteManager\<close> of assistent.py\<close>

text \<open>The loop of \<open>_get_next_id\<close>: the largest number after the prefix, from 0.\<close>

fun max_id_loop :: "string \<Rightarrow> Note list \<Rightarrow> int \<Rightarrow> int" where
  "max_id_loop prefix [] max_id = max_id"
| "max_id_loop prefix (note # notes) max_id =
     (if startswith (n_id note) prefix
      then (case py_int (drop (length prefix) (n_id note)) of
              Some num \<Rightarrow> max_id_loop prefix notes (max max_id num)
            | None \<Rightarrow> max_id_loop prefix notes max_id)
      else max_id_loop prefix notes max_id)"

definition get_next_id :: "string \<Rightarrow> Note list \<Rightarrow> string" where
  "get_next_id prefix notes = prefix @ str_int (max_id_loop prefix notes 0 + 1)"

text \<open>Python's truth value of an optional string: \<open>None\<close> and \<open>""\<close> are false.\<close>

definition truthy :: "string option \<Rightarrow> bool" where
  "truthy v = (case v of None \<Rightarrow> False | Some s \<Rightarrow> s \<noteq> [])"

text \<open>\<open>create_note\<close>: \<open>now\<close> is the clock's \<open>datetime.now().isoformat()\<close>, \<open>rd\<close> what the
  load does, \<open>wr\<close> what the
  save does. The result of the save is not read.\<close>

definition create_note ::
  "string \<Rightarrow> rres \<Rightarrow> wres \<Rightarrow> string \<Rightarrow> string option \<Rightarrow> store \<Rightarrow> Note \<times> store" where
  "create_note now rd wr content project_id st =
     (let notes = load_json rd (notes_file st);
          prefix = (if truthy project_id then ''projectnote'' else ''note'');
          note_id = get_next_id prefix notes;
          note = \<lparr>n_id = note_id, n_content = content, n_created = now,
                  n_project_id = project_id, n_type = None, n_updated = None\<rparr>;
          notes = notes @ [note];
          (ok, f) = save_json wr notes (notes_file st)
      in (note, st\<lparr>notes_file := f\<rparr>))"

definition create_idea :: "string \<Rightarrow> rres \<Rightarrow> wres \<Rightarrow> string \<Rightarrow> store \<Rightarrow> Note \<times> store" where
  "create_idea now rd wr content st =
     (let notes = load_json rd (notes_file st);
          idea_id = get_next_id ''idea'' notes;
          idea = \<lparr>n_id = idea_id, n_content = content, n_created = now,
                  n_project_id = None, n_type = Some ''idea'', n_updated = None\<rparr>;
          notes = notes @ [idea];
          (ok, f) = save_json wr notes (notes_file st)
      in (idea, st\<lparr>notes_file := f\<rparr>))"

definition get_note :: "rres \<Rightarrow> string \<Rightarrow> store \<Rightarrow> Note option" where
  "get_note rd note_id st = find (\<lambda>note. n_id note = note_id) (load_json rd (notes_file st))"

text \<open>\<open>list.sort(key, reverse=True)\<close> is stable: equal keys keep their order.\<close>

definition sort_desc :: "('a \<Rightarrow> string) \<Rightarrow> 'a list \<Rightarrow> 'a list" where
  "sort_desc key xs = rev (sort_key key (rev xs))"

definition get_recent_notes :: "rres \<Rightarrow> nat \<Rightarrow> store \<Rightarrow> Note list" where
  "get_recent_notes rd limit st =
     take limit (sort_desc n_created (load_json rd (notes_file st)))"

text \<open>\<open>create_project\<close>: the title is the id. \<open>mkdir_ok\<close> tells whether \<open>os.makedirs\<close>
  of the project's directory succeeds; when it does not, its exception leaves the
  method.\<close>

definition create_project ::
  "string \<Rightarrow> rres \<Rightarrow> bool \<Rightarrow> wres \<Rightarrow> string \<Rightarrow> store \<Rightarrow> exn + Project \<times> store" where
  "create_project now rd mkdir_ok wr title st =
     (let projects = load_json rd (projects_file st);
          project_id = title
      in case find (\<lambda>project. p_id project = project_id) projects of
           Some project \<Rightarrow> Inr (project, st)
         | None \<Rightarrow>
             let project = \<lparr>p_id = project_id, p_title = title, p_created = now\<rparr>
             in if \<not> mkdir_ok then Inl OSError
                else let projects = projects @ [project];
                         (ok, f) = save_json wr projects (projects_file st)
                     in Inr (project, st\<lparr>projects_file := f\<rparr>))"

definition get_project :: "rres \<Rightarrow> string \<Rightarrow> store \<Rightarrow> Project option" where
  "get_project rd project_id st =
     find (\<lambda>project. p_id project = project_id) (load_json rd (projects_file st))"

definition get_projects :: "rres \<Rightarrow> store \<Rightarrow> Project list" where
  "get_projects rd st = load_json rd (projects_file st)"

definition get_notes_by_project :: "rres \<Rightarrow> string \<Rightarrow> store \<Rightarrow> Note list" where
  "get_notes_by_project rd project_id st =
     filter (\<lambda>note. n_project_id note = Some project_id) (load_json rd (notes_file st))"

text \<open>The search loop of \<open>update_note\<close>: the position of the first note with the id.\<close>

fun index_of :: "string \<Rightarrow> Note list \<Rightarrow> nat option" where
  "index_of note_id [] = None"
| "index_of note_id (note # notes) =
     (if n_id note = note_id then Some 0 else map_option Suc (index_of note_id notes))"

text \<open>
  \<open>update_note\<close> of assistent.py. \<open>original_note\<close> is the element of \<open>notes\<close> itself, so
  the two assignments change the list that is saved. \<open>now1\<close> and \<open>now2\<close> are the two
  readings of the clock, \<open>rd1\<close> and \<open>rd2\<close> what the loads of the notes and of the
  refined records do, \<open>wr1\<close> and \<open>wr2\<close> what the two saves do; the results of the saves
  are not read.
\<close>

definition update_note ::
  "string \<Rightarrow> string \<Rightarrow> rres \<Rightarrow> rres \<Rightarrow> wres \<Rightarrow> wres \<Rightarrow> string \<Rightarrow> string \<Rightarrow> store
     \<Rightarrow> bool \<times> store" where
  "update_note now1 now2 rd1 rd2 wr1 wr2 note_id content st =
     (let notes = load_json rd1 (notes_file st);
          refined_notes = load_json rd2 (refined_file st)
      in case index_of note_id notes of
           None \<Rightarrow> (False, st)
         | Some i \<Rightarrow>
             let original_note = notes ! i;
                 refined_note = \<lparr>r_id = note_id,
                                 r_original_content = n_content original_note,
                                 r_refined_content = content,
                                 r_created = now1,
                                 r_project_id = n_project_id original_note\<rparr>;
                 refined_notes = refined_notes @ [refined_note];
                 (ok1, rf) = save_json wr1 refined_notes (refined_file st);
                 notes = notes[i := original_note\<lparr>n_content := content, n_updated := Some now2\<rparr>];
                 (ok2, nf) = save_json wr2 notes (notes_file st)
             in (True, st\<lparr>refined_file := rf, notes_file := nf\<rparr>))"

definition get_refined_note :: "rres \<Rightarrow> string \<Rightarrow> store \<Rightarrow> RefinedNote option" where
  "get_refined_note rd note_id st =
     find (\<lambda>note. r_id note = note_id) (load_json rd (refined_file st))"

section \<open>\<open>NoteManager\<close> of note\_manager.py\<close>

text \<open>
  The second manager works on the same notes.json. Its \<open>create_note\<close> takes the first
  eight characters of \<open>shortuuid.uuid()\<close> as the id; \<open>uuid\<close> is that random string, an
  input. Its \<open>update_note\<close> changes the first note with the id and saves; it writes no
  refined record.
\<close>

definition nm_create_note ::
  "string \<Rightarrow> string \<Rightarrow> rres \<Rightarrow> wres \<Rightarrow> string \<Rightarrow> string option \<Rightarrow> store \<Rightarrow> Note \<times> store" where
  "nm_create_note uuid now rd wr content project_id st =
     (let note_id = take 8 uuid;
          note = \<lparr>n_id = note_id, n_content = content, n_created = now,
                  n_project_id = project_id, n_type = None, n_updated = None\<rparr>;
          notes = load_json rd (notes_file st);
          notes = notes @ [note];
          (ok, f) = save_json wr notes (notes_file st)
      in (note, st\<lparr>notes_file := f\<rparr>))"

definition nm_update_note ::
  "string \<Rightarrow> rres \<Rightarrow> wres \<Rightarrow> string \<Rightarrow> string \<Rightarrow> store \<Rightarrow> bool \<times> store" where
  "nm_update_note now rd wr note_id content st =
     (let notes = load_json rd (notes_file st)
      in case index_of note_id notes of
           None \<Rightarrow> (False, st)
         | Some i \<Rightarrow>
             let notes = notes[i := (notes ! i)\<lparr>n_content := content, n_updated := Some now\<rparr>];
                 (ok, f) = save_json wr notes (notes_file st)
             in (True, st\<lparr>notes_file := f\<rparr>))"


section \<open>\<open>PromptManager\<close> (prompt\_manager.py)\<close>

text \<open>
  The base prompt and the context are JSON objects with string values, read from two
  files when the manager is constructed; \<open>rd1\<close> and \<open>rd2\<close> are what the two reads do.
  \<open>PromptManager._load_json\<close> has no handler: a failed read, a missing or a malformed
  file raises. (The constructor also creates the prompts
  directory and an empty prompts.json that no method reads; they are left out.)
\<close>

record prompt_files =
  base_prompt_file :: "(string \<rightharpoonup> string) json_file"
  context_file :: "(string \<rightharpoonup> string) json_file"

record PromptManager =
  base_prompt :: "string \<rightharpoonup> string"
  pm_context :: "string \<rightharpoonup> string"

definition PromptManager_init :: "rres \<Rightarrow> rres \<Rightarrow> prompt_files \<Rightarrow> exn + PromptManager" where
  "PromptManager_init rd1 rd2 pf =
     (case read_json rd1 (base_prompt_file pf) of
        Inl e \<Rightarrow> Inl e
      | Inr b \<Rightarrow> (case read_json rd2 (context_file pf) of
                    Inl e \<Rightarrow> Inl e
                  | Inr c \<Rightarrow> Inr \<lparr>base_prompt = b, pm_context = c\<rparr>))"

definition nl :: string where
  "nl = [CHR 0x0A]"

fun join :: "string \<Rightarrow> string list \<Rightarrow> string" where
  "join sep [] = []"
| "join sep [x] = x"
| "join sep (x # y # ys) = x @ sep @ join sep (y # ys)"

text \<open>\<open>get_prompt\<close>: \<open>additional_context\<close> is a dictionary in its iteration order, or
  \<open>None\<close>. The result is a copy; the manager is not changed.\<close>

definition get_prompt ::
  "PromptManager \<Rightarrow> (string \<times> string) list option \<Rightarrow> exn + (string \<rightharpoonup> string)" where
  "get_prompt pm additional_context =
     (let prompt = base_prompt pm
      in case additional_context of
           None \<Rightarrow> Inr prompt
         | Some items \<Rightarrow>
             if items = [] then Inr prompt
             else let context_str =
                        join nl (map (\<lambda>(k, v). k @ '': '' @ v) (filter (\<lambda>(k, v). v \<noteq> []) items))
                  in if context_str \<noteq> []
                     then (case prompt ''content'' of
                             None \<Rightarrow> Inl KeyError
                           | Some c \<Rightarrow>
                               Inr (prompt(''content'' \<mapsto>
                                      c @ nl @ nl @ ''Current context:'' @ nl @ context_str)))
                     else Inr prompt)"


section \<open>The Gateway (\<open>process_with_ai\<close>, assistent.py)\<close>

text \<open>What the generation endpoint does with one request: \<open>requests.post\<close> raises, or
  \<open>raise_for_status\<close> raises, or the body is not JSON, or the JSON has no key
  \<open>response\<close>, or it has one.\<close>

datatype http_result = Unreachable | Http_error | Not_json | No_response_field | Response string

definition english_apology :: string where
  "english_apology = ''Sorry, I had a problem processing your message. Could you try again?''"

definition spanish_apology :: string where
  "spanish_apology = ''Lo siento, tuve un problema al procesar tu mensaje. '' @
     [CHR 0xC2, CHR 0xBF] @ ''Podr'' @ i_acute @ ''as intentarlo de nuevo?''"

definition english_instruction :: string where
  "english_instruction = ''Respond in English only, without translations.''"

definition spanish_instruction :: string where
  "spanish_instruction = ''Responde en espa'' @ [CHR 0xC3, CHR 0xB1] @ ''ol '' @
     [CHR 0xC3, CHR 0xBA] @ ''nicamente, sin traducciones.''"

text \<open>
  The body of the \<open>try\<close> block. An exception comes with the value the local variable
  \<open>is_english_text\<close> has when it is raised: \<open>None\<close> while the variable is not yet
  assigned. \<open>rd1\<close> and \<open>rd2\<close> are what the reads of the two prompt files do, \<open>ollama\<close>
  is the endpoint: what it does with a prompt.
\<close>

definition process_with_ai_try ::
  "rres \<Rightarrow> rres \<Rightarrow> prompt_files \<Rightarrow> (string \<Rightarrow> http_result) \<Rightarrow> string \<Rightarrow> string
     \<Rightarrow> (exn \<times> bool option) + string" where
  "process_with_ai_try rd1 rd2 pf ollama message context =
     (case PromptManager_init rd1 rd2 pf of
        Inl e \<Rightarrow> Inl (e, None)
      | Inr prompt_manager \<Rightarrow>
          (case get_prompt prompt_manager None of
             Inl e \<Rightarrow> Inl (e, None)
           | Inr prompt \<Rightarrow>
               let is_english_text = is_english message;
                   language_instruction =
                     (if is_english_text then english_instruction else spanish_instruction)
               in case prompt ''content'' of
                    None \<Rightarrow> Inl (KeyError, Some is_english_text)
                  | Some c \<Rightarrow>
                      let complete_prompt = c @ nl @ nl @ language_instruction @ nl @ nl;
                          complete_prompt =
                            (if context \<noteq> []
                             then complete_prompt @ ''Additional context:'' @ nl @ context @ nl @ nl
                             else complete_prompt);
                          complete_prompt =
                            complete_prompt @ ''User: '' @ message @ nl @ nl @ ''Assistant:''
                      in case ollama complete_prompt of
                           Unreachable \<Rightarrow> Inl (RequestException, Some is_english_text)
                         | Http_error \<Rightarrow> Inl (RequestException, Some is_english_text)
                         | Not_json \<Rightarrow> Inl (JSONDecodeError, Some is_english_text)
                         | No_response_field \<Rightarrow> Inl (KeyError, Some is_english_text)
                         | Response ai_response \<Rightarrow> Inr ai_response))"

text \<open>The handler \<open>except Exception\<close> reads \<open>is_english_text\<close>; reading it unassigned
  raises \<open>UnboundLocalError\<close>, which leaves the function.\<close>

definition process_with_ai ::
  "rres \<Rightarrow> rres \<Rightarrow> prompt_files \<Rightarrow> (string \<Rightarrow> http_result) \<Rightarrow> string \<Rightarrow> string \<Rightarrow> exn + string" where
  "process_with_ai rd1 rd2 pf ollama message context =
     (case process_with_ai_try rd1 rd2 pf ollama message context of
        Inr ai_response \<Rightarrow> Inr ai_response
      | Inl (e, Some is_english_text) \<Rightarrow>
          Inr (if is_english_text then english_apology else spanish_apology)
      | Inl (e, None) \<Rightarrow> Inl UnboundLocalError)"


section \<open>The conversation router (assistent.py)\<close>

text \<open>
  A value of the dictionary \<open>user_states\<close>: \<open>None\<close>, a string, or a dictionary of
  strings. A user without a key is absent from the map.
\<close>

datatype pyval = PNone | PStr string | PDict "string \<rightharpoonup> string"

text \<open>\<open>v[key]\<close> with a string key: only a dictionary can be read that way.\<close>

definition getitem_key :: "pyval \<Rightarrow> string \<Rightarrow> exn + string" where
  "getitem_key v key =
     (case v of
        PDict d \<Rightarrow> (case d key of None \<Rightarrow> Inl KeyError | Some x \<Rightarrow> Inr x)
      | PStr s \<Rightarrow> Inl TypeError
      | PNone \<Rightarrow> Inl TypeError)"

text \<open>\<open>xs[i]\<close> on a list, with \<open>i\<close> not negative.\<close>

definition getitem :: "'a list \<Rightarrow> nat \<Rightarrow> exn + 'a" where
  "getitem xs i = (if i < length xs then Inr (xs ! i) else Inl IndexError)"

text \<open>
  The calls into the Entity Manager, the Prompt Provider and the Gateway, in the order
  the handlers make them. The log is not a variable of the program: it records which
  calls an event has led to.
\<close>

datatype call =
    Create_note string "string option"
  | Create_idea string
  | Create_project string
  | Get_note string
  | Get_recent_notes
  | Get_project string
  | Get_projects
  | Get_notes_by_project string
  | Update_note string string
  | Get_prompt
  | Process_with_ai string string

record world =
  user_states :: "int \<rightharpoonup> pyval"
  waiting_for_base_prompt :: "int set"
  files :: store
  pfiles :: prompt_files
  calls :: "call list"

text \<open>
  What the outside does during one event: the clock's readings, the results of the
  reads (\<open>reads e k\<close> is what the read at position \<open>k\<close> of the handler's branch does,
  counted from 0 in the order of the source), of the saves, of \<open>os.makedirs\<close>, and the
  endpoint.
\<close>

record env =
  now1 :: string
  now2 :: string
  reads :: "nat \<Rightarrow> rres"
  wr1 :: wres
  wr2 :: wres
  mkdir_ok :: bool
  ollama :: "string \<Rightarrow> http_result"

text \<open>
  The texts the bot sends, one constructor for each place that sends one, with the
  values the text is built from. \<open>Plain\<close> is a text sent as it is.
\<close>

datatype msg =
    Denied_callback_text
  | Denied_message_text
  | Main_menu_text
  | Base_prompt_text string
  | Edit_base_prompt_text
  | New_note_text
  | New_idea_text
  | Projects_text
  | New_project_text
  | Project_message Project "Note list"
  | Project_not_found_text
  | Add_project_note_text string
  | Refine_message_text
  | Refine_note_text string
  | Note_refined_text string string
  | Cancelled_text
  | Project_chat_text string nat
  | Project_empty_text string
  | Help_text
  | Help_topic_text string
  | Recent_notes_text
  | Note_message Note
  | Note_not_found_text
  | Note_saved_text string string
  | Idea_saved_text string string
  | Project_created_text string
  | Project_note_saved_text string string
  | Plain string

text \<open>A keyboard is given by the callback data of its buttons, in order.\<close>

datatype out =
    Answer "msg option"
  | Edit_text msg "string list"
  | Reply_text msg "string list option"

definition create_main_menu :: "string list" where
  "create_main_menu =
     [''new_note'', ''new_idea'', ''menu_projects'', ''refine_message'', ''base_prompt'', ''help'']"

definition create_cancel_menu :: "string list" where
  "create_cancel_menu = [''cancel'']"

definition create_base_prompt_menu :: "string list" where
  "create_base_prompt_menu = [''edit_base_prompt'', ''menu_main'']"

definition create_notes_menu :: "Note list \<Rightarrow> string list" where
  "create_notes_menu notes = map (\<lambda>note. ''note_'' @ n_id note) notes @ [''new_note'', ''menu_main'']"

definition create_projects_menu :: "Project list \<Rightarrow> string list" where
  "create_projects_menu projects =
     map (\<lambda>project. ''project_'' @ p_id project) projects @ [''new_project'', ''menu_main'']"

definition create_help_menu :: "string list" where
  "create_help_menu = [''help_notes'', ''help_ideas'', ''help_projects'', ''help_refine'', ''menu_main'']"

definition create_note_buttons :: "string \<Rightarrow> string list" where
  "create_note_buttons note_id = [''refine_note_'' @ note_id, ''menu_notes'']"

definition create_project_buttons :: "string \<Rightarrow> string list" where
  "create_project_buttons project_id =
     [''new_project_note_'' @ project_id, ''ask_project_'' @ project_id, ''menu_projects'']"

definition ALLOWED_USERS :: "int \<Rightarrow> int list" where
  "ALLOWED_USERS AUTHORIZED_USER_ID = [AUTHORIZED_USER_ID]"

definition refine_prompt :: string where
  "refine_prompt = ''Refina el siguiente texto para hacerlo m'' @ a_acute @
     ''s claro y conciso, manteniendo su significado principal. Si est'' @ a_acute @
     '' en espa'' @ [CHR 0xC3, CHR 0xB1] @ ''ol, ref'' @ i_acute @ ''nalo en espa'' @
     [CHR 0xC3, CHR 0xB1] @ ''ol. Si est'' @ a_acute @ '' en ingl'' @ e_acute @
     ''s, ref'' @ i_acute @ ''nalo en ingl'' @ e_acute @ ''s.''"

text \<open>The context that \<open>ask_project_\<close> builds from the notes of a project.\<close>

definition project_context :: "Project \<Rightarrow> Note list \<Rightarrow> string" where
  "project_context project project_notes =
     ''Estoy trabajando en un proyecto llamado '' @ [CHR 0x27] @ p_title project @ [CHR 0x27] @
     ''. Aqu'' @ i_acute @ '' est'' @ a_acute @ ''n las notas del proyecto:'' @ nl @ nl @
     concat (map (\<lambda>note. ''Nota #'' @ n_id note @ '':'' @ nl @ n_content note @ nl @ nl)
               project_notes) @
     ''Estoy listo para responder preguntas sobre este proyecto basado en estas notas.''"

definition log_call :: "call \<Rightarrow> world \<Rightarrow> world" where
  "log_call c w = w\<lparr>calls := calls w @ [c]\<rparr>"

definition set_state :: "int \<Rightarrow> pyval \<Rightarrow> world \<Rightarrow> world" where
  "set_state user_id v w = w\<lparr>user_states := (user_states w)(user_id \<mapsto> v)\<rparr>"

type_synonym outcome = "out list \<times> world \<times> exn option"


text \<open>
  The branches of \<open>handle_callback\<close> in the order of the source, without the last one
  (\<open>chat_project_\<close>): \<open>None\<close> when none of them applies. An outcome holds the texts sent,
  the world, and the exception that ended the handler, if any.
\<close>

definition callback_action :: "env \<Rightarrow> int \<Rightarrow> string \<Rightarrow> world \<Rightarrow> outcome option" where
  "callback_action e user_id data w =
     (if data = ''menu_main'' then
        Some ([Edit_text Main_menu_text create_main_menu], set_state user_id PNone w, None)
      else if data = ''base_prompt'' then
        (let w = log_call Get_prompt w
         in case PromptManager_init (reads e 0) (reads e 1) (pfiles w) of
              Inl x \<Rightarrow> Some ([], w, Some x)
            | Inr prompt_manager \<Rightarrow>
                (case get_prompt prompt_manager None of
                   Inl x \<Rightarrow> Some ([], w, Some x)
                 | Inr prompt \<Rightarrow>
                     (case prompt ''content'' of
                        None \<Rightarrow> Some ([], w, Some KeyError)
                      | Some c \<Rightarrow> Some ([Edit_text (Base_prompt_text c) create_base_prompt_menu], w, None))))
      else if data = ''edit_base_prompt'' then
        Some ([Edit_text Edit_base_prompt_text [''menu_main'']],
              w\<lparr>waiting_for_base_prompt := insert user_id (waiting_for_base_prompt w)\<rparr>, None)
      else if data = ''new_note'' then
        Some ([Edit_text New_note_text create_cancel_menu],
              set_state user_id (PStr ''waiting_for_note'') w, None)
      else if data = ''new_idea'' then
        Some ([Edit_text New_idea_text create_cancel_menu],
              set_state user_id (PStr ''waiting_for_idea'') w, None)
      else if data = ''menu_projects'' then
        (let w = log_call Get_projects w;
             projects = get_projects (reads e 0) (files w)
         in Some ([Edit_text Projects_text (create_projects_menu projects)], w, None))
      else if data = ''new_project'' then
        Some ([Edit_text New_project_text create_cancel_menu],
              set_state user_id (PStr ''waiting_for_project_name'') w, None)
      else if startswith data ''project_'' then
        (case getitem (split_on CHR ''_'' data) 1 of
           Inl x \<Rightarrow> Some ([], w, Some x)
         | Inr project_id \<Rightarrow>
             let w = log_call (Get_project project_id) w
             in case get_project (reads e 0) project_id (files w) of
                  Some project \<Rightarrow>
                    let w = log_call (Get_notes_by_project project_id) w;
                        project_notes = get_notes_by_project (reads e 1) project_id (files w);
                        keyboard =
                          (if project_notes \<noteq> []
                           then map (\<lambda>note. ''note_'' @ n_id note) project_notes
                           else [''dummy'']) @ create_project_buttons project_id
                    in Some ([Edit_text (Project_message project project_notes) keyboard], w, None)
                | None \<Rightarrow>
                    let w = log_call Get_projects w
                    in Some ([Edit_text Project_not_found_text
                                (create_projects_menu (get_projects (reads e 1) (files w)))],
                           w, None))
      else if startswith data ''new_project_note_'' then
        (case getitem (split_on CHR ''_'' data) 3 of
           Inl x \<Rightarrow> Some ([], w, Some x)
         | Inr project_id \<Rightarrow>
             let w = log_call (Get_project project_id) w
             in case get_project (reads e 0) project_id (files w) of
                  Some project \<Rightarrow>
                    let w = set_state user_id
                              (PDict [''state'' \<mapsto> ''waiting_for_project_note'',
                                      ''project_id'' \<mapsto> project_id]) w
                    in Some ([Edit_text (Add_project_note_text (p_title project))
                                [''project_'' @ project_id]], w, None)
                | None \<Rightarrow>
                    let w = log_call Get_projects w
                    in Some ([Edit_text Project_not_found_text
                                (create_projects_menu (get_projects (reads e 1) (files w)))],
                           w, None))
      else if data = ''refine_message'' then
        Some ([Edit_text Refine_message_text [''menu_main'']],
              set_state user_id (PDict [''state'' \<mapsto> ''waiting_for_refinement'']) w, None)
      else if startswith data ''refine_note_'' then
        (case getitem (split_on CHR ''_'' data) 2 of
           Inl x \<Rightarrow> Some ([], w, Some x)
         | Inr note_id \<Rightarrow>
             let w = log_call (Get_note note_id) w
             in case get_note (reads e 0) note_id (files w) of
                  Some note \<Rightarrow>
                    let w = set_state user_id
                              (PDict [''state'' \<mapsto> ''waiting_for_refinement'',
                                      ''note_id'' \<mapsto> note_id]) w
                    in Some ([Edit_text (Refine_note_text (n_content note))
                                [''confirm_refine_'' @ note_id, ''note_'' @ note_id]], w, None)
                | None \<Rightarrow> Some ([], w, None))
      else if startswith data ''confirm_refine_'' then
        (case getitem (split_on CHR ''_'' data) 2 of
           Inl x \<Rightarrow> Some ([], w, Some x)
         | Inr note_id \<Rightarrow>
             let w = log_call (Get_note note_id) w
             in case get_note (reads e 0) note_id (files w) of
                  Some note \<Rightarrow>
                    let w = log_call (Process_with_ai (n_content note) refine_prompt) w
                    in (case process_with_ai (reads e 1) (reads e 2) (pfiles w) (ollama e)
                                (n_content note) refine_prompt of
                          Inl x \<Rightarrow> Some ([], w, Some x)
                        | Inr refined_text \<Rightarrow>
                            let w = log_call (Update_note note_id refined_text) w;
                                (ok, st) = update_note (now1 e) (now2 e) (reads e 3) (reads e 4)
                                             (wr1 e) (wr2 e)
                                             note_id refined_text (files w);
                                w = w\<lparr>files := st\<rparr>
                            in Some ([Edit_text (Note_refined_text (n_content note) refined_text)
                                        [''menu_notes'']], w, None))
                | None \<Rightarrow> Some ([], w, None))
      else if data = ''cancel'' then
        Some ([Edit_text Cancelled_text create_main_menu], set_state user_id PNone w, None)
      else if startswith data ''ask_project_'' then
        (case getitem (split_on CHR ''_'' data) 2 of
           Inl x \<Rightarrow> Some ([], w, Some x)
         | Inr project_id \<Rightarrow>
             let w = log_call (Get_project project_id) w
             in case get_project (reads e 0) project_id (files w) of
                  Some project \<Rightarrow>
                    let w = log_call (Get_notes_by_project project_id) w;
                        project_notes = get_notes_by_project (reads e 1) project_id (files w)
                    in if project_notes \<noteq> []
                       then let w = set_state user_id
                                      (PDict [''state'' \<mapsto> ''project_chat'',
                                              ''project_id'' \<mapsto> project_id,
                                              ''context'' \<mapsto> project_context project project_notes]) w
                            in Some ([Edit_text (Project_chat_text (p_title project)
                                                   (length project_notes))
                                        [''project_'' @ project_id]], w, None)
                       else Some ([Edit_text (Project_empty_text (p_title project))
                                     (create_project_buttons project_id)], w, None)
                | None \<Rightarrow> Some ([], w, None))
      else if data = ''help'' then
        Some ([Edit_text Help_text create_help_menu], w, None)
      else if startswith data ''help_'' then
        (case getitem (split_on CHR ''_'' data) 1 of
           Inl x \<Rightarrow> Some ([], w, Some x)
         | Inr help_type \<Rightarrow> Some ([Edit_text (Help_topic_text help_type) [''help'']], w, None))
      else if data = ''menu_notes'' then
        (let w = log_call Get_recent_notes w;
             notes = get_recent_notes (reads e 0) 10 (files w)
         in Some ([Edit_text Recent_notes_text (create_notes_menu notes)], w, None))
      else if startswith data ''note_'' then
        (case getitem (split_on CHR ''_'' data) 1 of
           Inl x \<Rightarrow> Some ([], w, Some x)
         | Inr note_id \<Rightarrow>
             let w = log_call (Get_note note_id) w
             in case get_note (reads e 0) note_id (files w) of
                  Some note \<Rightarrow>
                    Some ([Edit_text (Note_message note) (create_note_buttons note_id)], w, None)
                | None \<Rightarrow> Some ([Edit_text Note_not_found_text [''menu_notes'']], w, None))
      else None)"

text \<open>The closing \<open>await query.answer()\<close>, reached when nothing was raised.\<close>

definition answer :: "outcome \<Rightarrow> outcome" where
  "answer r = (case r of (outs, w, raised) \<Rightarrow>
                 (if raised = None then (outs @ [Answer None], w, None) else (outs, w, raised)))"

text \<open>
  \<open>handle_callback\<close>: \<open>query_data\<close> is the data of the button, \<open>callback_data\<close> the
  optional third argument, which only the branch \<open>chat_project_\<close> passes, to itself.
\<close>

function handle_callback ::
  "int \<Rightarrow> env \<Rightarrow> int \<Rightarrow> string \<Rightarrow> string option \<Rightarrow> world \<Rightarrow> outcome" where
  "handle_callback auth e user_id query_data callback_data w =
     (if user_id \<notin> set (ALLOWED_USERS auth) then ([Answer (Some Denied_callback_text)], w, None)
      else let data = (if truthy callback_data then the callback_data else query_data)
           in case callback_action e user_id data w of
                Some r \<Rightarrow> answer r
              | None \<Rightarrow>
                  if startswith data ''chat_project_''
                  then (case getitem (split_on CHR ''_'' data) 2 of
                          Inl x \<Rightarrow> ([], w, Some x)
                        | Inr project_id \<Rightarrow>
                            answer (handle_callback auth e user_id query_data
                                      (Some (''ask_project_'' @ project_id)) w))
                  else answer ([], w, None))"
  by pat_completeness auto
termination
  by (relation "measure (\<lambda>(auth, e, user_id, query_data, callback_data, w).
         if startswith (if truthy callback_data then the callback_data else query_data)
              ''chat_project_'' then 1 else 0)")
     (auto simp: truthy_def startswith_def)

declare handle_callback.simps [simp del]

text \<open>
  \<open>handle_message\<close>. A user with a key in \<open>user_states\<close> takes the first branch, whatever
  the value; a string is compared with the value as it is.
\<close>

definition handle_message :: "int \<Rightarrow> env \<Rightarrow> int \<Rightarrow> string \<Rightarrow> world \<Rightarrow> outcome" where
  "handle_message auth e user_id message_text w =
     (if user_id \<notin> set (ALLOWED_USERS auth) then ([Reply_text Denied_message_text None], w, None)
      else case user_states w user_id of
        Some state \<Rightarrow>
          if state = PStr ''waiting_for_note'' then
            (let w = log_call (Create_note message_text None) w;
                 (note, st) = create_note (now1 e) (reads e 0) (wr1 e) message_text None (files w);
                 w = set_state user_id PNone (w\<lparr>files := st\<rparr>)
             in ([Reply_text (Note_saved_text (n_id note) (take 100 (n_content note)))
                    (Some create_main_menu)], w, None))
          else if state = PStr ''waiting_for_idea'' then
            (let w = log_call (Create_idea message_text) w;
                 (idea, st) = create_idea (now1 e) (reads e 0) (wr1 e) message_text (files w);
                 w = set_state user_id PNone (w\<lparr>files := st\<rparr>)
             in ([Reply_text (Idea_saved_text (n_id idea) (take 100 (n_content idea)))
                    (Some create_main_menu)], w, None))
          else if state = PStr ''waiting_for_project_name'' then
            (let w = log_call (Create_project message_text) w
             in case create_project (now1 e) (reads e 0) (mkdir_ok e) (wr1 e) message_text
                       (files w) of
                  Inl x \<Rightarrow> ([], w, Some x)
                | Inr (project, st) \<Rightarrow>
                    let w = set_state user_id PNone (w\<lparr>files := st\<rparr>);
                        w = log_call Get_projects w
                    in ([Reply_text (Project_created_text (p_title project))
                           (Some (create_projects_menu (get_projects (reads e 1) (files w))))],
                        w, None))
          else if state = PStr ''waiting_for_project_note'' then
            (case getitem_key state ''project_id'' of
               Inl x \<Rightarrow> ([], w, Some x)
             | Inr project_id \<Rightarrow>
                 let w = log_call (Create_note message_text (Some project_id)) w;
                     (note, st) = create_note (now1 e) (reads e 0) (wr1 e) message_text
                                    (Some project_id) (files w);
                     w = set_state user_id PNone (w\<lparr>files := st\<rparr>)
                 in ([Reply_text (Project_note_saved_text (n_id note) (take 100 (n_content note)))
                        (Some (create_project_buttons project_id))], w, None))
          else ([], w, None)
      | None \<Rightarrow>
          (let w = log_call (Process_with_ai message_text []) w
           in case process_with_ai (reads e 0) (reads e 1) (pfiles w) (ollama e) message_text [] of
                Inr ai_response \<Rightarrow> ([Reply_text (Plain ai_response) None], w, None)
              | Inl x \<Rightarrow>
                  ([Reply_text (Plain (if is_english message_text then english_apology
                                       else spanish_apology)) None], w, None)))"


section \<open>Sequences of calls and sample data\<close>

text \<open>A sequence of \<open>create_note\<close> calls, each with its clock reading, the results of
  its load and of its save, the content and the project; the notes returned, in order,
  and the final store.\<close>

fun create_notes ::
  "(string \<times> rres \<times> wres \<times> string \<times> string option) list \<Rightarrow> store \<Rightarrow> Note list \<times> store" where
  "create_notes [] st = ([], st)"
| "create_notes ((now, rd, wr, content, project_id) # cs) st =
     (let (note, st1) = create_note now rd wr content project_id st;
          (rest, st2) = create_notes cs st1
      in (note # rest, st2))"

text \<open>The same for the \<open>create_note\<close> of note\_manager.py; each call comes with the
  string that \<open>shortuuid.uuid()\<close> returns in it.\<close>

fun nm_create_notes ::
  "(string \<times> string \<times> rres \<times> wres \<times> string \<times> string option) list \<Rightarrow> store
     \<Rightarrow> Note list \<times> store" where
  "nm_create_notes [] st = ([], st)"
| "nm_create_notes ((uuid, now, rd, wr, content, project_id) # cs) st =
     (let (note, st1) = nm_create_note uuid now rd wr content project_id st;
          (rest, st2) = nm_create_notes cs st1
      in (note # rest, st2))"

text \<open>A store with one note and one project, prompt files that load, a world in which
  no user has a state yet, and an outside in which every read and every save succeeds
  and the endpoint answers \<open>ok\<close>. The authorized user of the examples is 7.\<close>

definition st_demo :: store where
  "st_demo = \<lparr>notes_file = Content [\<lparr>n_id = ''note1'', n_content = ''old'', n_created = ''t0'',
                 n_project_id = None, n_type = None, n_updated = None\<rparr>],
              projects_file = Content [\<lparr>p_id = ''p1'', p_title = ''p1'', p_created = ''t0''\<rparr>],
              refined_file = Content []\<rparr>"

definition pf_demo :: prompt_files where
  "pf_demo = \<lparr>base_prompt_file = Content [''role'' \<mapsto> ''system'', ''content'' \<mapsto> ''Be brief.''],
              context_file = Content Map.empty\<rparr>"

definition pm_demo :: PromptManager where
  "pm_demo = \<lparr>base_prompt = [''role'' \<mapsto> ''system'', ''content'' \<mapsto> ''Be brief.''],
              pm_context = Map.empty\<rparr>"

definition w_demo :: world where
  "w_demo = \<lparr>user_states = Map.empty, waiting_for_base_prompt = {}, files = st_demo,
             pfiles = pf_demo, calls = []\<rparr>"

definition e_demo :: env where
  "e_demo = \<lparr>now1 = ''t1'', now2 = ''t2'', reads = (\<lambda>k. Read_ok), wr1 = Written,
             wr2 = Written, mkdir_ok = True,
             ollama = (\<lambda>p. Response ''ok'')\<rparr>"

definition calls_demo :: "(string \<times> rres \<times> wres \<times> string \<times> string option) list" where
  "calls_demo = [(''t1'', Read_ok, Written, ''a'', None),
                 (''t2'', Read_ok, Written, ''b'', Some ''p1''),
                 (''t3'', Read_ok, Written, ''c'', None)]"

text \<open>A store whose refined collection already holds a record of an earlier
  refinement of the note.\<close>

definition st_refined :: store where
  "st_refined = st_demo\<lparr>refined_file := Content [\<lparr>r_id = ''note1'', r_original_content = ''older'',
                  r_refined_content = ''old'', r_created = ''t0'', r_project_id = None\<rparr>]\<rparr>"

section \<open>The language heuristic counts function words\<close>

lemmas demo_defs = st_demo_def pf_demo_def pm_demo_def w_demo_def e_demo_def calls_demo_def
  st_refined_def

lemma count_ones: "(\<Sum>x\<leftarrow>xs. (1::int)) = int (length xs)"
  by (induction xs) auto

lemmas word_defs = is_english_def split_def lower_def lower_char_def upper_chars_def
  lower_chars_def isspace_def english_words_def spanish_words_def a_acute_def e_acute_def
  i_acute_def o_acute_def

text \<open>
  C5. \<open>is_english\<close> answers English exactly when the lower-cased, whitespace-split
  message has strictly more words of the English list than of the Spanish list, and
  Spanish otherwise. The message \<open>the quick fox is here\<close> is English; the Spanish
  sentence about the dog that is here (\<open>el perro\<close> and two words whose accented letters
  are the code points \<open>0xE1\<close> and \<open>0xED\<close>) is Spanish; a message none of whose words is
  in either list is Spanish.
\<close>

theorem is_english_counts_function_words:
  "(is_english text \<longleftrightarrow>
      length (filter (\<lambda>w. w \<in> set spanish_words) (split (lower text)))
        < length (filter (\<lambda>w. w \<in> set english_words) (split (lower text))))
   \<and> is_english ''the quick fox is here''
   \<and> \<not> is_english (''el perro est'' @ [CHR 0xE1] @ '' aqu'' @ [CHR 0xED])
   \<and> ((\<forall>w \<in> set (split (lower text)). w \<notin> set english_words \<and> w \<notin> set spanish_words)
          \<longrightarrow> \<not> is_english text)"
proof (intro conjI)
  show g: "is_english text \<longleftrightarrow>
      length (filter (\<lambda>w. w \<in> set spanish_words) (split (lower text)))
        < length (filter (\<lambda>w. w \<in> set english_words) (split (lower text)))"
    by (simp add: is_english_def Let_def count_ones)
  show "is_english ''the quick fox is here''"
    by (simp add: word_defs)
  show "\<not> is_english (''el perro est'' @ [CHR 0xE1] @ '' aqu'' @ [CHR 0xED])"
    by (simp add: word_defs)
  show "(\<forall>w \<in> set (split (lower text)). w \<notin> set english_words \<and> w \<notin> set spanish_words)
          \<longrightarrow> \<not> is_english text"
  proof
    assume "\<forall>w \<in> set (split (lower text)). w \<notin> set english_words \<and> w \<notin> set spanish_words"
    then have "filter (\<lambda>w. w \<in> set english_words) (split (lower text)) = []"
      by (simp add: filter_empty_conv)
    then show "\<not> is_english text" using g by simp
  qed
qed

theorem is_english_counts_function_words_witness:
  "split (lower ''Hola amigo 42'') = [''hola'', ''amigo'', ''42'']
   \<and> \<not> is_english ''Hola amigo 42''"
proof -
  have t: "split (lower ''Hola amigo 42'') = [''hola'', ''amigo'', ''42'']"
    by (simp add: word_defs)
  have h: "\<forall>w \<in> set (split (lower ''Hola amigo 42'')).
              w \<notin> set english_words \<and> w \<notin> set spanish_words"
    unfolding t by (simp add: word_defs)
  from is_english_counts_function_words [of "''Hola amigo 42''"] h t show ?thesis by blast
qed

section \<open>The Store's load never raises\<close>

lemma load_json_Content: "load_json Read_ok (Content d) = d"
  by (simp add: load_json_def read_json_def)

lemma load_json_Read_fails: "load_json Read_fails f = []"
  by (simp add: load_json_def read_json_def)

text \<open>
  C8. For every collection file, \<open>NoteManager._load_json\<close> returns the empty collection
  when reading or parsing fails, that is when the read itself fails or the file is
  missing or malformed, which are the cases in which \<open>open\<close> or \<open>json.load\<close> raise. The
  result is a list in every case: no exception reaches the caller.
\<close>

theorem load_json_empty_on_failure:
  "(read_json rd f = Inl e \<longrightarrow> load_json rd f = [])
   \<and> (rd = Read_fails \<or> f = Missing \<or> f = Malformed
        \<longrightarrow> (\<exists>x. read_json rd f = Inl x) \<and> load_json rd f = [])"
  by (auto simp add: load_json_def read_json_def split: rres.splits)

theorem load_json_empty_on_failure_witness:
  "read_json Read_ok (Missing :: Note list json_file) = Inl FileNotFoundError
   \<and> load_json Read_ok (Missing :: Note list json_file) = []"
  using load_json_empty_on_failure
          [of Read_ok "Missing :: Note list json_file" FileNotFoundError]
  by (simp add: read_json_def)

section \<open>\<open>update_note\<close>\<close>

lemma index_of_None: "index_of note_id ns = None \<longleftrightarrow> note_id \<notin> n_id ` set ns"
  by (induction ns) auto

lemma index_of_Some:
  "index_of note_id ns = Some i \<Longrightarrow>
     i < length ns \<and> n_id (ns ! i) = note_id \<and> (\<forall>j<i. n_id (ns ! j) \<noteq> note_id)"
proof (induction ns arbitrary: i)
  case Nil
  then show ?case by simp
next
  case (Cons a ns)
  show ?case
  proof (cases "n_id a = note_id")
    case True
    with Cons.prems show ?thesis by simp
  next
    case False
    with Cons.prems obtain k where k: "index_of note_id ns = Some k" "i = Suc k" by auto
    from Cons.IH [OF k(1)] False k(2) show ?thesis
      by (auto simp: less_Suc_eq_0_disj)
  qed
qed

lemma index_of_update:
  "index_of note_id ns = Some i \<Longrightarrow>
   index_of note_id (ns[i := (ns ! i)\<lparr>n_content := c, n_updated := u\<rparr>]) = Some i"
proof (induction ns arbitrary: i)
  case Nil
  then show ?case by simp
next
  case (Cons a ns)
  show ?case
  proof (cases "n_id a = note_id")
    case True
    with Cons.prems show ?thesis by simp
  next
    case False
    with Cons.prems obtain k where k: "index_of note_id ns = Some k" "i = Suc k" by auto
    from Cons.IH [OF k(1)] False k(2) show ?thesis by simp
  qed
qed

lemma update_note_written:
  assumes "index_of note_id (load_json rd (notes_file st)) = Some i"
  shows "update_note t1 t2 rd rd' Written Written note_id content st =
           (True, st\<lparr>refined_file := Content (load_json rd' (refined_file st) @
                        [\<lparr>r_id = note_id,
                          r_original_content = n_content (load_json rd (notes_file st) ! i),
                          r_refined_content = content, r_created = t1,
                          r_project_id = n_project_id (load_json rd (notes_file st) ! i)\<rparr>]),
                     notes_file := Content ((load_json rd (notes_file st))
                        [i := (load_json rd (notes_file st) ! i)
                                \<lparr>n_content := content, n_updated := Some t2\<rparr>])\<rparr>)"
  using assms by (simp add: update_note_def Let_def save_json_def write_json_def)

text \<open>
  C4. When no note of the notes collection, as the call loads it, has the id,
  \<open>update_note\<close> returns \<open>False\<close> and the store is the one it started from: notes,
  refined records and projects are unchanged. This holds for the \<open>update_note\<close> of
  assistent.py and for the one of note\_manager.py, whatever the load of the refined
  records and the saves would have done.
\<close>

theorem update_note_unknown_id:
  assumes "note_id \<notin> n_id ` set (load_json rd (notes_file st))"
  shows "update_note t1 t2 rd rd' r1 r2 note_id content st = (False, st)
         \<and> nm_update_note t rd r note_id content st = (False, st)"
  using assms by (simp add: update_note_def nm_update_note_def Let_def index_of_None [symmetric])

theorem update_note_unknown_id_witness:
  "''note9'' \<notin> n_id ` set (load_json Read_ok (notes_file st_demo))
   \<and> update_note ''t1'' ''t2'' Read_ok Read_ok Written Written ''note9'' ''new'' st_demo
       = (False, st_demo)
   \<and> nm_update_note ''t1'' Read_ok Written ''note9'' ''new'' st_demo = (False, st_demo)"
proof -
  have h: "''note9'' \<notin> n_id ` set (load_json Read_ok (notes_file st_demo))"
    by (simp add: st_demo_def load_json_Content)
  from update_note_unknown_id [OF h] h show ?thesis by blast
qed

text \<open>
  C3, as the claim states it, fails in three ways. The \<open>update_note\<close> of
  note\_manager.py changes the note and writes no refined record: the refined
  collection is as before. The \<open>update_note\<close> of assistent.py does not read the results
  of its saves: when both are refused it returns \<open>True\<close> and the note and the refined
  collection are as before. And it takes a refined collection that cannot be read for
  an empty one: with refined.json writable but not readable, the call on a store whose
  refined collection holds one record saves a collection of one record, the new one,
  and the earlier record is gone.
\<close>

theorem update_note_history_counterexample:
  "nm_update_note ''t1'' Read_ok Written ''note1'' ''new'' st_demo
     = (True, st_demo\<lparr>notes_file := Content [\<lparr>n_id = ''note1'', n_content = ''new'',
                         n_created = ''t0'', n_project_id = None, n_type = None,
                         n_updated = Some ''t1''\<rparr>]\<rparr>)
   \<and> refined_file (snd (nm_update_note ''t1'' Read_ok Written ''note1'' ''new'' st_demo))
     = Content []
   \<and> update_note ''t1'' ''t2'' Read_ok Read_ok Refused Refused ''note1'' ''new'' st_demo
     = (True, st_demo)
   \<and> refined_file (snd (update_note ''t1'' ''t2'' Read_ok Read_fails Written Written
                           ''note1'' ''new'' st_refined))
     = Content [\<lparr>r_id = ''note1'', r_original_content = ''old'', r_refined_content = ''new'',
                  r_created = ''t1'', r_project_id = None\<rparr>]"
  by (simp add: nm_update_note_def update_note_def st_demo_def st_refined_def load_json_Content
        load_json_Read_fails Let_def save_json_def write_json_def)

text \<open>
  C3, amended. For the \<open>update_note\<close> of assistent.py, when a note of the collection
  has the id and, in each call, both reads succeed (of the notes and of the refined
  records) and both saves succeed: the call returns \<open>True\<close>; the first note with the id gets the new
  content and the second clock reading as \<open>updated\<close>, and no other note changes; exactly
  one refined record is appended, which holds the id, the content the note had before
  the call, the new content, the first clock reading and the note's project. A second
  call on the same id appends a second record, whose original content is the content
  the first call wrote; the first record stays where it was.
\<close>

theorem update_note_refinement_history:
  assumes "note_id \<in> n_id ` set (load_json Read_ok (notes_file st))"
  shows "\<exists>i st1 st2.
     i < length (load_json Read_ok (notes_file st))
     \<and> n_id (load_json Read_ok (notes_file st) ! i) = note_id
     \<and> (\<forall>j<i. n_id (load_json Read_ok (notes_file st) ! j) \<noteq> note_id)
     \<and> update_note t1 t2 Read_ok Read_ok Written Written note_id new1 st = (True, st1)
     \<and> load_json Read_ok (notes_file st1) =
         (load_json Read_ok (notes_file st))
           [i := (load_json Read_ok (notes_file st) ! i)\<lparr>n_content := new1, n_updated := Some t2\<rparr>]
     \<and> load_json Read_ok (refined_file st1) = load_json Read_ok (refined_file st) @
         [\<lparr>r_id = note_id, r_original_content = n_content (load_json Read_ok (notes_file st) ! i),
           r_refined_content = new1, r_created = t1,
           r_project_id = n_project_id (load_json Read_ok (notes_file st) ! i)\<rparr>]
     \<and> projects_file st1 = projects_file st
     \<and> update_note t3 t4 Read_ok Read_ok Written Written note_id new2 st1 = (True, st2)
     \<and> load_json Read_ok (notes_file st2) =
         (load_json Read_ok (notes_file st))
           [i := (load_json Read_ok (notes_file st) ! i)\<lparr>n_content := new2, n_updated := Some t4\<rparr>]
     \<and> load_json Read_ok (refined_file st2) = load_json Read_ok (refined_file st1) @
         [\<lparr>r_id = note_id, r_original_content = new1,
           r_refined_content = new2, r_created = t3,
           r_project_id = n_project_id (load_json Read_ok (notes_file st) ! i)\<rparr>]"
proof -
  let ?ns = "load_json Read_ok (notes_file st)"
  from assms obtain i where i: "index_of note_id ?ns = Some i"
    using index_of_None [of note_id ?ns] by (cases "index_of note_id ?ns") auto
  note props = index_of_Some [OF i]
  let ?n1 = "?ns[i := (?ns ! i)\<lparr>n_content := new1, n_updated := Some t2\<rparr>]"
  let ?r1 = "\<lparr>r_id = note_id, r_original_content = n_content (?ns ! i),
           r_refined_content = new1, r_created = t1, r_project_id = n_project_id (?ns ! i)\<rparr>"
  let ?st1 = "st\<lparr>refined_file := Content (load_json Read_ok (refined_file st) @ [?r1]),
                  notes_file := Content ?n1\<rparr>"
  have u1: "update_note t1 t2 Read_ok Read_ok Written Written note_id new1 st = (True, ?st1)"
    by (rule update_note_written [OF i])
  have l1: "load_json Read_ok (notes_file ?st1) = ?n1" by (simp add: load_json_Content)
  have i1: "index_of note_id (load_json Read_ok (notes_file ?st1)) = Some i"
    unfolding l1 by (rule index_of_update [OF i])
  have u2: "update_note t3 t4 Read_ok Read_ok Written Written note_id new2 ?st1 =
      (True, ?st1\<lparr>refined_file := Content (load_json Read_ok (refined_file ?st1) @
                        [\<lparr>r_id = note_id,
                          r_original_content = n_content (load_json Read_ok (notes_file ?st1) ! i),
                          r_refined_content = new2, r_created = t3,
                          r_project_id = n_project_id (load_json Read_ok (notes_file ?st1) ! i)\<rparr>]),
                     notes_file := Content ((load_json Read_ok (notes_file ?st1))
                        [i := (load_json Read_ok (notes_file ?st1) ! i)
                                \<lparr>n_content := new2, n_updated := Some t4\<rparr>])\<rparr>)"
    by (rule update_note_written [OF i1])
  show ?thesis
    apply (rule exI [of _ i])
    apply (rule exI [of _ ?st1])
    apply (intro exI conjI)
             apply (simp_all only: u1 u2)
    using props apply (simp_all add: load_json_Content)
    done
qed

theorem update_note_refinement_history_witness:
  "''note1'' \<in> n_id ` set (load_json Read_ok (notes_file st_demo))
   \<and> (\<exists>st1 st2.
        update_note ''t1'' ''t2'' Read_ok Read_ok Written Written ''note1'' ''new1'' st_demo = (True, st1)
        \<and> update_note ''t3'' ''t4'' Read_ok Read_ok Written Written ''note1'' ''new2'' st1 = (True, st2)
        \<and> map r_original_content (load_json Read_ok (refined_file st1)) = [''old'']
        \<and> map r_original_content (load_json Read_ok (refined_file st2)) = [''old'', ''new1''])"
proof -
  have h: "''note1'' \<in> n_id ` set (load_json Read_ok (notes_file st_demo))"
    by (simp add: st_demo_def load_json_Content)
  from update_note_refinement_history
         [OF h, of "''t1''" "''t2''" "''new1''" "''t3''" "''t4''" "''new2''"]
  obtain i st1 st2 where
    i: "i < length (load_json Read_ok (notes_file st_demo))"
    and u1: "update_note ''t1'' ''t2'' Read_ok Read_ok Written Written ''note1'' ''new1'' st_demo = (True, st1)"
    and r1: "load_json Read_ok (refined_file st1) = load_json Read_ok (refined_file st_demo) @
         [\<lparr>r_id = ''note1'',
           r_original_content = n_content (load_json Read_ok (notes_file st_demo) ! i),
           r_refined_content = ''new1'', r_created = ''t1'',
           r_project_id = n_project_id (load_json Read_ok (notes_file st_demo) ! i)\<rparr>]"
    and u2: "update_note ''t3'' ''t4'' Read_ok Read_ok Written Written ''note1'' ''new2'' st1 = (True, st2)"
    and r2: "load_json Read_ok (refined_file st2) = load_json Read_ok (refined_file st1) @
         [\<lparr>r_id = ''note1'', r_original_content = ''new1'',
           r_refined_content = ''new2'', r_created = ''t3'',
           r_project_id = n_project_id (load_json Read_ok (notes_file st_demo) ! i)\<rparr>]"
    by blast
  from i have i0: "i = 0" by (simp add: st_demo_def load_json_Content)
  have a: "map r_original_content (load_json Read_ok (refined_file st1)) = [''old'']"
    using r1 i0 by (simp add: st_demo_def load_json_Content)
  then have b: "map r_original_content (load_json Read_ok (refined_file st2)) = [''old'', ''new1'']"
    using r2 by simp
  have "\<exists>st1 st2.
        update_note ''t1'' ''t2'' Read_ok Read_ok Written Written ''note1'' ''new1'' st_demo = (True, st1)
        \<and> update_note ''t3'' ''t4'' Read_ok Read_ok Written Written ''note1'' ''new2'' st1 = (True, st2)
        \<and> map r_original_content (load_json Read_ok (refined_file st1)) = [''old'']
        \<and> map r_original_content (load_json Read_ok (refined_file st2)) = [''old'', ''new1'']"
    by (rule exI [of _ st1], rule exI [of _ st2]) (simp only: u1 u2 a b simp_thms)
  with h show ?thesis by (rule conjI)
qed

section \<open>Ids of created notes\<close>

lemma digit_val_digit_char: "d < 10 \<Longrightarrow> digit_val (digit_char d) = Some d"
proof -
  assume "d < 10"
  then have "d = 0 \<or> d = 1 \<or> d = 2 \<or> d = 3 \<or> d = 4 \<or> d = 5 \<or> d = 6 \<or> d = 7
    \<or> d = 8 \<or> d = 9" by arith
  then show ?thesis by (auto simp add: digit_val_def digit_char_def)
qed

lemma digit_not_underscore: "digit_val c = Some v \<Longrightarrow> c \<noteq> CHR ''_''"
  by (auto simp: digit_val_def)

lemma digit_not_sign: "digit_val c = Some v \<Longrightarrow> c \<noteq> CHR ''+'' \<and> c \<noteq> CHR ''-''"
  by (auto simp: digit_val_def)

lemma digit_not_space: "digit_val c = Some v \<Longrightarrow> \<not> int_space c"
  by (auto simp: digit_val_def int_space_def split: if_splits)

lemma parse_digits_append:
  "\<forall>c \<in> set xs. digit_val c \<noteq> None \<Longrightarrow>
   parse_digits acc (xs @ ys) =
     (case parse_digits acc xs of None \<Rightarrow> None | Some a \<Rightarrow> parse_digits a ys)"
proof (induction xs arbitrary: acc)
  case Nil
  then show ?case by simp
next
  case (Cons c xs)
  then obtain v where v: "digit_val c = Some v" by auto
  with Cons show ?case using digit_not_underscore [OF v] by simp
qed

lemma str_nat_digits: "\<forall>c \<in> set (str_nat n). digit_val c \<noteq> None"
proof (induction n rule: str_nat.induct)
  case (1 n)
  show ?case
  proof (cases "n < 10")
    case True
    then show ?thesis by (subst str_nat.simps) (simp add: digit_val_digit_char)
  next
    case False
    with 1 show ?thesis by (subst str_nat.simps) (simp add: digit_val_digit_char)
  qed
qed

lemma str_nat_nonempty: "str_nat n \<noteq> []"
  by (subst str_nat.simps) simp

lemma parse_digits_str_nat: "parse_digits 0 (str_nat n) = Some n"
proof (induction n rule: str_nat.induct)
  case (1 n)
  show ?case
  proof (cases "n < 10")
    case True
    then show ?thesis by (subst str_nat.simps) (simp add: digit_val_digit_char digit_not_underscore)
  next
    case False
    have "parse_digits 0 (str_nat (n div 10) @ [digit_char (n mod 10)]) = Some n"
      using 1 False
      by (simp add: parse_digits_append str_nat_digits digit_val_digit_char
            digit_not_underscore [OF digit_val_digit_char])
    with False show ?thesis by (subst str_nat.simps) simp
  qed
qed

lemma parse_nat_str_nat: "parse_nat (str_nat n) = Some n"
proof (cases "str_nat n")
  case Nil
  with str_nat_nonempty show ?thesis by simp
next
  case (Cons c cs)
  with str_nat_digits [of n] obtain v where v: "digit_val c = Some v" by auto
  have "parse_digits 0 (c # cs) = Some n" using parse_digits_str_nat [of n] Cons by simp
  with v have "parse_digits v cs = Some n" using digit_not_underscore [OF v] by simp
  with v Cons show ?thesis by (simp add: parse_nat_def)
qed

lemma dropWhile_none: "xs \<noteq> [] \<Longrightarrow> \<not> P (hd xs) \<Longrightarrow> dropWhile P xs = xs"
  by (cases xs) auto

lemma strip_int_str_nat: "strip_int (str_nat n) = str_nat n"
proof -
  have ne: "str_nat n \<noteq> []" by (rule str_nat_nonempty)
  have all: "\<forall>c \<in> set (str_nat n). \<not> int_space c"
    using str_nat_digits [of n] digit_not_space by auto
  have "hd (str_nat n) \<in> set (str_nat n)" using ne by simp
  with all have a: "dropWhile int_space (str_nat n) = str_nat n"
    using ne by (intro dropWhile_none) auto
  have "hd (rev (str_nat n)) \<in> set (str_nat n)" using ne by (simp add: hd_rev)
  with all have b: "dropWhile int_space (rev (str_nat n)) = rev (str_nat n)"
    using ne by (intro dropWhile_none) auto
  show ?thesis by (simp add: strip_int_def a b)
qed

lemma py_int_str_nat: "py_int (str_nat n) = Some (int n)"
proof (cases "str_nat n")
  case Nil
  with str_nat_nonempty show ?thesis by simp
next
  case (Cons c cs)
  with str_nat_digits [of n] obtain v where v: "digit_val c = Some v" by auto
  from parse_nat_str_nat [of n] Cons have "parse_nat (c # cs) = Some n" by simp
  then show ?thesis
    using digit_not_sign [OF v] Cons strip_int_str_nat [of n] by (simp add: py_int_def)
qed

lemma py_int_str_int: "0 \<le> k \<Longrightarrow> py_int (str_int k) = Some k"
  by (simp add: str_int_def py_int_str_nat)

lemma max_id_loop_mono: "m \<le> max_id_loop prefix ns m"
proof (induction ns arbitrary: m)
  case Nil
  then show ?case by simp
next
  case (Cons a ns)
  have "max m k \<le> max_id_loop prefix ns (max m k)" for k by (rule Cons.IH)
  then have "m \<le> max_id_loop prefix ns (max m k)" for k
    by (meson max.cobounded1 order_trans)
  with Cons.IH [of m] show ?case by (auto split: option.splits)
qed

lemma max_id_loop_bound:
  assumes "a \<in> set ns" "startswith (n_id a) prefix"
    "py_int (drop (length prefix) (n_id a)) = Some num"
  shows "num \<le> max_id_loop prefix ns m"
  using assms
proof (induction ns arbitrary: m)
  case Nil
  then show ?case by simp
next
  case (Cons b ns)
  show ?case
  proof (cases "a = b")
    case True
    have "max m num \<le> max_id_loop prefix ns (max m num)" by (rule max_id_loop_mono)
    then have "num \<le> max_id_loop prefix ns (max m num)" by (meson max.cobounded2 order_trans)
    with True Cons.prems show ?thesis by simp
  next
    case False
    with Cons.prems have "a \<in> set ns" by simp
    from Cons.IH [OF this Cons.prems(2,3)] show ?thesis by (auto split: option.splits)
  qed
qed

lemma get_next_id_fresh: "get_next_id prefix ns \<notin> n_id ` set ns"
proof
  assume "get_next_id prefix ns \<in> n_id ` set ns"
  then obtain a where a: "a \<in> set ns" "n_id a = get_next_id prefix ns" by auto
  let ?M = "max_id_loop prefix ns 0"
  have M: "0 \<le> ?M" by (rule max_id_loop_mono)
  have sw: "startswith (n_id a) prefix" using a(2) by (simp add: get_next_id_def startswith_def)
  have "drop (length prefix) (n_id a) = str_int (?M + 1)" using a(2) by (simp add: get_next_id_def)
  then have "py_int (drop (length prefix) (n_id a)) = Some (?M + 1)"
    using M by (simp add: py_int_str_int)
  from max_id_loop_bound [OF a(1) sw this, of 0] show False by simp
qed

lemma create_note_written:
  assumes "create_note now Read_ok Written content project_id st = (n, st1)"
  shows "n_id n \<notin> n_id ` set (load_json Read_ok (notes_file st))
     \<and> load_json Read_ok (notes_file st1) = load_json Read_ok (notes_file st) @ [n]"
proof -
  let ?ns = "load_json Read_ok (notes_file st)"
  let ?p = "if truthy project_id then ''projectnote'' else ''note''"
  have i: "n_id n = get_next_id ?p ?ns" and l: "load_json Read_ok (notes_file st1) = ?ns @ [n]"
    using assms
    by (auto simp add: create_note_def Let_def save_json_def write_json_def load_json_Content)
  from get_next_id_fresh [of ?p ?ns] i l show ?thesis by simp
qed

lemma nm_create_notes_ids:
  "map n_id (fst (nm_create_notes cs st)) = map (\<lambda>c. take 8 (fst c)) cs"
proof (induction cs arbitrary: st)
  case Nil
  then show ?case by simp
next
  case (Cons c cs)
  obtain uuid now rd wr content project_id where c: "c = (uuid, now, rd, wr, content, project_id)"
    by (cases c) auto
  obtain n st1 where cn: "nm_create_note uuid now rd wr content project_id st = (n, st1)"
    by (cases "nm_create_note uuid now rd wr content project_id st") auto
  then have i: "n_id n = take 8 uuid"
    by (auto simp add: nm_create_note_def Let_def split: prod.splits)
  obtain rest st2 where cr: "nm_create_notes cs st1 = (rest, st2)"
    by (cases "nm_create_notes cs st1") auto
  from Cons.IH [of st1] cr have "map n_id rest = map (\<lambda>c. take 8 (fst c)) cs" by simp
  with c cn cr i show ?case by simp
qed

text \<open>
  C9, as the claim states it, fails in three ways. The \<open>create_note\<close> of assistent.py
  does not read the result of its save: when the save is refused the notes file stays
  as it was, and the next call computes the same id again, so two calls return \<open>note2\<close>.
  It takes a notes file that cannot be read for an empty collection: with notes.json
  writable but not readable, two calls whose saves succeed both return \<open>note1\<close>, the id
  of the note the file held. And the \<open>create_note\<close> of note\_manager.py compares its
  random token with nothing: two calls whose tokens (the short forms of two version-4
  UUIDs) differ only after the eighth character return the same id.
\<close>

theorem create_note_ids_counterexample:
  "map n_id (fst (create_notes [(''t1'', Read_ok, Refused, ''a'', None),
                                (''t2'', Read_ok, Refused, ''b'', None)] st_demo))
     = [''note2'', ''note2'']
   \<and> map n_id (fst (create_notes [(''t1'', Read_fails, Written, ''a'', None),
                                  (''t2'', Read_fails, Written, ''b'', None)] st_demo))
     = [''note1'', ''note1'']
   \<and> map n_id (load_json Read_ok (notes_file st_demo)) = [''note1'']
   \<and> map n_id (fst (nm_create_notes
                      [(''JDW8Wm42uUVHFoJRgKRaxi'', ''t1'', Read_ok, Written, ''a'', None),
                       (''JDW8Wm42Gpn9nyDuuGymQz'', ''t2'', Read_ok, Written, ''b'', None)]
                      st_demo))
     = [''JDW8Wm42'', ''JDW8Wm42'']"
  by (simp add: st_demo_def create_note_def nm_create_note_def load_json_Content
        load_json_Read_fails Let_def save_json_def write_json_def
        truthy_def get_next_id_def startswith_def py_int_def strip_int_def int_space_def
        parse_nat_def digit_val_def str_int_def str_nat.simps digit_char_def)

text \<open>
  C9, amended. For every sequence of calls of the \<open>create_note\<close> of assistent.py, with or
  without a project, in which every read and every save of the notes file succeeds,
  the ids returned are pairwise distinct, and none of them is the id of a note the
  collection held before the sequence. For every sequence of calls of the
  \<open>create_note\<close> of note\_manager.py the ids returned are the first eight characters of
  the random tokens of the calls, so they are pairwise distinct exactly when those
  tokens differ within their first eight characters.
\<close>

theorem create_note_ids_distinct:
  "((\<forall>c \<in> set cs. fst (snd c) = Read_ok \<and> fst (snd (snd c)) = Written) \<longrightarrow>
      distinct (map n_id (fst (create_notes cs st)))
      \<and> n_id ` set (fst (create_notes cs st))
           \<inter> n_id ` set (load_json Read_ok (notes_file st)) = {})
   \<and> (distinct (map n_id (fst (nm_create_notes ms st)))
        \<longleftrightarrow> distinct (map (\<lambda>c. take 8 (fst c)) ms))"
proof (intro conjI impI)
  assume "\<forall>c \<in> set cs. fst (snd c) = Read_ok \<and> fst (snd (snd c)) = Written"
  then have "distinct (map n_id (fst (create_notes cs st)))
      \<and> n_id ` set (fst (create_notes cs st))
           \<inter> n_id ` set (load_json Read_ok (notes_file st)) = {}"
  proof (induction cs arbitrary: st)
    case Nil
    then show ?case by simp
  next
    case (Cons c cs)
    obtain now rd wr content project_id where c: "c = (now, rd, wr, content, project_id)"
      by (cases c) auto
    with Cons.prems have rw: "rd = Read_ok" "wr = Written" by simp_all
    obtain n st1 where cn: "create_note now Read_ok Written content project_id st = (n, st1)"
      by (cases "create_note now Read_ok Written content project_id st") auto
    obtain rest st2 where cr: "create_notes cs st1 = (rest, st2)"
      by (cases "create_notes cs st1") auto
    from create_note_written [OF cn]
    have fresh: "n_id n \<notin> n_id ` set (load_json Read_ok (notes_file st))"
      and l1: "load_json Read_ok (notes_file st1) = load_json Read_ok (notes_file st) @ [n]"
      by auto
    from Cons.prems
    have "\<forall>c \<in> set cs. fst (snd c) = Read_ok \<and> fst (snd (snd c)) = Written" by simp
    from Cons.IH [OF this, of st1] cr l1
    have d: "distinct (map n_id rest)"
      and dj: "n_id ` set rest \<inter> n_id ` set (load_json Read_ok (notes_file st) @ [n]) = {}"
      by auto
    have res: "fst (create_notes (c # cs) st) = n # rest"
      using c rw cn cr by simp
    from d dj fresh show ?case unfolding res by auto
  qed
  then show "distinct (map n_id (fst (create_notes cs st)))"
    and "n_id ` set (fst (create_notes cs st))
           \<inter> n_id ` set (load_json Read_ok (notes_file st)) = {}" by simp_all
next
  show "distinct (map n_id (fst (nm_create_notes ms st)))
        \<longleftrightarrow> distinct (map (\<lambda>c. take 8 (fst c)) ms)"
    by (simp only: nm_create_notes_ids)
qed

theorem create_note_ids_distinct_witness:
  "map (\<lambda>c. (fst (snd c), fst (snd (snd c)))) calls_demo
     = [(Read_ok, Written), (Read_ok, Written), (Read_ok, Written)]
   \<and> distinct (map n_id (fst (create_notes calls_demo st_demo)))
   \<and> n_id ` set (fst (create_notes calls_demo st_demo))
        \<inter> n_id ` set (load_json Read_ok (notes_file st_demo)) = {}"
proof -
  have m: "map (\<lambda>c. (fst (snd c), fst (snd (snd c)))) calls_demo
     = [(Read_ok, Written), (Read_ok, Written), (Read_ok, Written)]"
    by (simp add: calls_demo_def)
  have h: "\<forall>c \<in> set calls_demo. fst (snd c) = Read_ok \<and> fst (snd (snd c)) = Written"
    by (simp add: calls_demo_def)
  from create_note_ids_distinct [of calls_demo st_demo] h
  have "distinct (map n_id (fst (create_notes calls_demo st_demo)))
      \<and> n_id ` set (fst (create_notes calls_demo st_demo))
           \<inter> n_id ` set (load_json Read_ok (notes_file st_demo)) = {}"
    by blast
  with m show ?thesis by simp
qed

lemma create_notes_demo_ids:
  "map n_id (fst (create_notes calls_demo st_demo)) = [''note2'', ''projectnote1'', ''note3'']"
  by (simp add: calls_demo_def st_demo_def create_note_def load_json_Content Let_def save_json_def
        write_json_def truthy_def get_next_id_def startswith_def py_int_def strip_int_def
        int_space_def parse_nat_def digit_val_def str_int_def str_nat.simps digit_char_def)


section \<open>\<open>update_base_prompt\<close> when the write fails\<close>





section \<open>The authorization gate\<close>

text \<open>
  C7. An event of a user other than the authorized one, text message or menu callback,
  is answered with the handler's fixed denial text and nothing else happens: the world
  after the event is the world before it, so the map of user states is unchanged and
  the log of calls has no new entry, neither of the Entity Manager nor of the Gateway.
\<close>

theorem unauthorized_event_is_rejected:
  assumes "user_id \<noteq> auth"
  shows "handle_message auth e user_id message_text w
           = ([Reply_text Denied_message_text None], w, None)
         \<and> handle_callback auth e user_id query_data callback_data w
           = ([Answer (Some Denied_callback_text)], w, None)"
  using assms by (simp add: handle_message_def handle_callback.simps ALLOWED_USERS_def)

theorem unauthorized_event_is_rejected_witness:
  "(8::int) \<noteq> 7
   \<and> handle_message 7 e_demo 8 ''hello'' w_demo
       = ([Reply_text Denied_message_text None], w_demo, None)
   \<and> handle_callback 7 e_demo 8 ''new_note'' None w_demo
       = ([Answer (Some Denied_callback_text)], w_demo, None)"
proof -
  have h: "(8::int) \<noteq> 7" by simp
  from unauthorized_event_is_rejected [OF h, of e_demo _ w_demo] h show ?thesis by blast
qed

section \<open>The router after a menu event\<close>

lemma handle_message_value_none:
  assumes "user_states w user_id = Some PNone"
  shows "handle_message user_id e user_id message_text w = ([], w, None)"
  using assms by (simp add: handle_message_def ALLOWED_USERS_def)

lemma handle_message_value_dict:
  assumes "user_states w user_id = Some (PDict d)"
  shows "handle_message user_id e user_id message_text w = ([], w, None)"
  using assms by (simp add: handle_message_def ALLOWED_USERS_def)

lemma cancel_sets_none:
  "handle_callback user_id e user_id ''cancel'' None w
     = ([Edit_text Cancelled_text create_main_menu, Answer None], set_state user_id PNone w, None)"
  by (simp add: handle_callback.simps ALLOWED_USERS_def truthy_def callback_action_def
        startswith_def answer_def)

lemma handle_message_no_key:
  assumes "user_states w user_id = None"
  shows "\<exists>reply. handle_message user_id e user_id message_text w
           = ([Reply_text (Plain reply) None],
              w\<lparr>calls := calls w @ [Process_with_ai message_text []]\<rparr>, None)"
  using assms
  by (simp add: handle_message_def ALLOWED_USERS_def log_call_def Let_def split: sum.splits)

lemma handle_message_note_resets:
  assumes "user_states w user_id = Some (PStr ''waiting_for_note'')"
  shows "\<exists>outs w'. handle_message user_id e user_id message_text w = (outs, w', None)
           \<and> user_states w' user_id = Some PNone"
  using assms
  by (simp add: handle_message_def ALLOWED_USERS_def Let_def set_state_def log_call_def
        split: prod.splits)

text \<open>
  C1 does not hold of the code. \<open>cancel\<close> (like \<open>menu_main\<close> and every completed action)
  stores \<open>None\<close> under the user's key; \<open>handle_message\<close> asks whether the key is present,
  finds it, matches the value against the four waiting states and does nothing else.
  After \<open>cancel\<close>, the authorized user's message \<open>hello\<close> gets no reply and the Gateway
  is not called; the same message from the same user before any menu event is forwarded
  with an empty context and answered with the generated text.
\<close>

theorem idle_after_cancel_is_not_forwarded:
  "handle_callback 7 e_demo 7 ''cancel'' None w_demo
     = ([Edit_text Cancelled_text create_main_menu, Answer None],
        w_demo\<lparr>user_states := [7 \<mapsto> PNone]\<rparr>, None)
   \<and> handle_message 7 e_demo 7 ''hello'' (w_demo\<lparr>user_states := [7 \<mapsto> PNone]\<rparr>)
     = ([], w_demo\<lparr>user_states := [7 \<mapsto> PNone]\<rparr>, None)
   \<and> handle_message 7 e_demo 7 ''hello'' w_demo
     = ([Reply_text (Plain ''ok'') None], w_demo\<lparr>calls := [Process_with_ai ''hello'' []]\<rparr>, None)"
proof (intro conjI)
  show "handle_callback 7 e_demo 7 ''cancel'' None w_demo
     = ([Edit_text Cancelled_text create_main_menu, Answer None],
        w_demo\<lparr>user_states := [7 \<mapsto> PNone]\<rparr>, None)"
    by (simp add: cancel_sets_none set_state_def w_demo_def)
  show "handle_message 7 e_demo 7 ''hello'' (w_demo\<lparr>user_states := [7 \<mapsto> PNone]\<rparr>)
     = ([], w_demo\<lparr>user_states := [7 \<mapsto> PNone]\<rparr>, None)"
    by (rule handle_message_value_none) simp
  show "handle_message 7 e_demo 7 ''hello'' w_demo
     = ([Reply_text (Plain ''ok'') None], w_demo\<lparr>calls := [Process_with_ai ''hello'' []]\<rparr>, None)"
    by (simp add: handle_message_def ALLOWED_USERS_def demo_defs log_call_def process_with_ai_def
          process_with_ai_try_def PromptManager_init_def read_json_def get_prompt_def Let_def)
qed

text \<open>
  C2 does not hold of the code. \<open>new_project_note_p1\<close>, for the existing project \<open>p1\<close>,
  stores a dictionary with the keys \<open>state\<close> and \<open>project_id\<close>; \<open>handle_message\<close>
  compares the stored value itself with the string \<open>waiting_for_project_note\<close>, which a
  dictionary never equals. The text \<open>task list\<close> sent next creates no note, gets no
  reply and leaves the state as it was.
\<close>

theorem project_note_state_is_never_matched:
  "handle_callback 7 e_demo 7 ''new_project_note_p1'' None w_demo
     = ([Edit_text (Add_project_note_text ''p1'') [''project_p1''], Answer None],
        w_demo\<lparr>user_states := [7 \<mapsto> PDict [''state'' \<mapsto> ''waiting_for_project_note'',
                                               ''project_id'' \<mapsto> ''p1'']],
                calls := [Get_project ''p1'']\<rparr>, None)
   \<and> handle_message 7 e_demo 7 ''task list''
        (w_demo\<lparr>user_states := [7 \<mapsto> PDict [''state'' \<mapsto> ''waiting_for_project_note'',
                                               ''project_id'' \<mapsto> ''p1'']],
                calls := [Get_project ''p1'']\<rparr>)
     = ([], w_demo\<lparr>user_states := [7 \<mapsto> PDict [''state'' \<mapsto> ''waiting_for_project_note'',
                                               ''project_id'' \<mapsto> ''p1'']],
                calls := [Get_project ''p1'']\<rparr>, None)"
proof (intro conjI)
  show "handle_callback 7 e_demo 7 ''new_project_note_p1'' None w_demo
     = ([Edit_text (Add_project_note_text ''p1'') [''project_p1''], Answer None],
        w_demo\<lparr>user_states := [7 \<mapsto> PDict [''state'' \<mapsto> ''waiting_for_project_note'',
                                               ''project_id'' \<mapsto> ''p1'']],
                calls := [Get_project ''p1'']\<rparr>, None)"
    by (simp add: handle_callback.simps ALLOWED_USERS_def truthy_def callback_action_def
          startswith_def answer_def getitem_def split_on_def log_call_def get_project_def
          load_json_def read_json_def set_state_def demo_defs Let_def)
  show "handle_message 7 e_demo 7 ''task list''
        (w_demo\<lparr>user_states := [7 \<mapsto> PDict [''state'' \<mapsto> ''waiting_for_project_note'',
                                               ''project_id'' \<mapsto> ''p1'']],
                calls := [Get_project ''p1'']\<rparr>)
     = ([], w_demo\<lparr>user_states := [7 \<mapsto> PDict [''state'' \<mapsto> ''waiting_for_project_note'',
                                               ''project_id'' \<mapsto> ''p1'']],
                calls := [Get_project ''p1'']\<rparr>, None)"
    by (rule handle_message_value_dict) simp
qed

section \<open>Failures inside the Gateway\<close>

lemma process_with_ai_apology:
  assumes "PromptManager_init rd1 rd2 pf = Inr pm" and "\<forall>p r. endpoint p \<noteq> Response r"
  shows "process_with_ai rd1 rd2 pf endpoint message context
           = Inr (if is_english message then english_apology else spanish_apology)"
proof (cases "base_prompt pm ''content''")
  case None
  with assms(1) show ?thesis
    by (simp add: process_with_ai_def process_with_ai_try_def get_prompt_def Let_def)
next
  case (Some c)
  with assms show ?thesis
    by (simp add: process_with_ai_def process_with_ai_try_def get_prompt_def Let_def
          split: http_result.splits)
qed

text \<open>
  C6 does not hold of the code. The handler of \<open>process_with_ai\<close> chooses the apology
  by the variable \<open>is_english_text\<close>, which the \<open>try\<close> block assigns only after the
  prompt files are loaded. With base\_prompt.json missing (\<open>PromptManager._load_json\<close>
  has no handler of its own) and the endpoint unreachable, \<open>process_with_ai("hola")\<close>
  ends with \<open>UnboundLocalError\<close> instead of returning an apology. With prompt files
  that load, the same call returns the Spanish apology.
\<close>

theorem process_with_ai_unbound_local:
  "process_with_ai Read_ok Read_ok
      \<lparr>base_prompt_file = Missing, context_file = Content Map.empty\<rparr>
      (\<lambda>p. Unreachable) ''hola'' [] = Inl UnboundLocalError
   \<and> process_with_ai Read_ok Read_ok pf_demo (\<lambda>p. Unreachable) ''hola'' []
     = Inr spanish_apology"
  by (simp add: process_with_ai_def process_with_ai_try_def PromptManager_init_def read_json_def
        get_prompt_def Let_def pf_demo_def word_defs)

end
